theory Spec2Isabelle
  imports Complex_Main "HOL-Library.Word"
begin

unbundle bit_operations_syntax

section \<open>Data model\<close>

text \<open>
  A shallow embedding of the dBase/FoxPro table engine: the IO functions (Close,
  writeHeader, readMemo, writeMemo, writeMemoHeader, readRow, writeRow, Search, GoTo,
  Skip) and the value codec (dataToValue, getCRepresentation). Go's fixed-width
  integers are words, \<open>[]byte\<close> is a list of 8-bit words, a nilable pointer is an
  option, and every function that mutates the handle returns the new handle.
\<close>

type_synonym byte = "8 word"
type_synonym bytes = "byte list"

text \<open>
  Errors. \<open>ErrEOF\<close>, \<open>ErrIncomplete\<close> and \<open>ErrNoFPT\<close> are the package's sentinel
  errors; \<open>ErrOS\<close> is an error handed back by the operating system or by an external
  collaborator (the text of such an error is not modelled); \<open>IoEOF\<close> is Go's io.EOF,
  which os.File.Read returns at the end of a file; \<open>Failed site\<close> is a
  \<open>fmt.Errorf\<close> without a wrapped cause, \<open>Wrap site e\<close> is \<open>newError(site, e)\<close> or a
  \<open>fmt.Errorf\<close> with the cause \<open>e\<close> under \<open>%w\<close>. \<open>Panic\<close> is a run-time panic
  (a slice or index out of range): no error value is returned, the call unwinds.
\<close>

datatype error =
    ErrEOF
  | ErrIncomplete
  | ErrNoFPT
  | ErrOS
  | IoEOF
  | Failed string
  | Wrap string error
  | Panic string

definition newError :: "string \<Rightarrow> error \<Rightarrow> error" where
  "newError site e = Wrap site e"

text \<open>An open file handle (\<open>*os.File\<close>): the bytes of the file, the offset of the
  descriptor, whether Close has been called on it, and how many times Close was
  called (a ghost counter, so that an attempt to close is observable).\<close>

record osfile =
  data :: bytes
  pos :: nat
  closed :: bool
  close_calls :: nat

datatype fileid = DBaseFile | MemoFile

datatype lock_result = LockOK | LockEAGAIN | LockErr

text \<open>
  The environment decides which system calls fail: a seek to a given absolute offset,
  a read or a write at a given descriptor offset, a close, the k-th \<open>F_SETLK\<close> attempt
  of a retry loop for the region that starts at a given offset, the unlock call. \<open>today\<close> is the local date of \<open>time.Now()\<close>
  as (year - 2000, month, day), each truncated to a byte.
\<close>

record env =
  seek_fails :: "fileid \<Rightarrow> int \<Rightarrow> bool"
  read_fails :: "fileid \<Rightarrow> nat \<Rightarrow> bool"
  write_fails :: "fileid \<Rightarrow> nat \<Rightarrow> bool"
  close_fails :: "fileid \<Rightarrow> bool"
  setlk :: "fileid \<Rightarrow> int \<Rightarrow> nat \<Rightarrow> lock_result"
  ulock_fails :: "fileid \<Rightarrow> bool"
  today :: "byte \<times> byte \<times> byte"

record Header =
  FileType :: byte
  Year :: byte
  Month :: byte
  Day :: byte
  RowsCount :: "32 word"
  FirstRow :: "16 word"
  RowLength :: "16 word"
  TableFlags :: byte
  CodePage :: byte

record MemoHeader =
  NextFree :: "32 word"
  BlockSize :: "16 word"

record Column =
  Name :: bytes
  DataType :: byte
  Position :: "32 word"
  Length :: byte
  Decimals :: byte

text \<open>
  The handle. \<open>WriteLock\<close> is \<open>dbf.config.WriteLock\<close>, \<open>rowPointer\<close> is
  \<open>dbf.table.rowPointer\<close>. \<open>prepareMemo\<close> sets \<open>memoFile\<close> and \<open>memoHeader\<close>
  together, so the memo header is a plain field that is meaningful when
  \<open>memoFile\<close> is not nil.
\<close>

record DBF =
  WriteLock :: bool
  dbaseFile :: "osfile option"
  memoFile :: "osfile option"
  header :: Header
  memoHeader :: MemoHeader
  rowPointer :: "32 word"

section \<open>Files\<close>

definition fseek :: "env \<Rightarrow> fileid \<Rightarrow> int \<Rightarrow> osfile option \<Rightarrow> error option \<times> osfile option" where
  "fseek e fid off fo =
     (case fo of
        None \<Rightarrow> (Some ErrOS, None)
      | Some f \<Rightarrow>
          if closed f \<or> off < 0 \<or> seek_fails e fid off then (Some ErrOS, fo)
          else (None, Some (f\<lparr>pos := nat off\<rparr>)))"

text \<open>\<open>f.Read(buf)\<close> with \<open>len(buf) = n\<close>: the bytes read (their number is Go's
  first result) and the error. A read of zero bytes returns at once; a read at or
  past the end of the file returns io.EOF; a read that reaches the end of the file is
  short.\<close>

definition fread :: "env \<Rightarrow> fileid \<Rightarrow> nat \<Rightarrow> osfile option \<Rightarrow> (bytes \<times> error option) \<times> osfile option" where
  "fread e fid n fo =
     (case fo of
        None \<Rightarrow> (([], Some ErrOS), None)
      | Some f \<Rightarrow>
          if closed f then (([], Some ErrOS), fo)
          else if n = 0 then (([], None), fo)
          else if read_fails e fid (pos f) then (([], Some ErrOS), fo)
          else if length (data f) \<le> pos f then (([], Some IoEOF), fo)
          else (let got = take n (drop (pos f) (data f))
                in ((got, None), Some (f\<lparr>pos := pos f + length got\<rparr>))))"

text \<open>The buffer after a read: \<open>make([]byte, n)\<close> is all zero, the bytes read replace
  its prefix.\<close>

definition buffer :: "nat \<Rightarrow> bytes \<Rightarrow> bytes" where
  "buffer n got = take n got @ replicate (n - length got) 0"

definition write_at :: "bytes \<Rightarrow> nat \<Rightarrow> bytes \<Rightarrow> bytes" where
  "write_at old off bs =
     take off old @ replicate (off - length old) 0 @ bs @ drop (off + length bs) old"

definition fwrite :: "env \<Rightarrow> fileid \<Rightarrow> bytes \<Rightarrow> osfile option \<Rightarrow> error option \<times> osfile option" where
  "fwrite e fid bs fo =
     (case fo of
        None \<Rightarrow> (Some ErrOS, None)
      | Some f \<Rightarrow>
          if closed f then (Some ErrOS, fo)
          else if bs = [] then (None, fo)
          else if write_fails e fid (pos f) then (Some ErrOS, fo)
          else (None, Some (f\<lparr>data := write_at (data f) (pos f) bs,
                                pos := pos f + length bs\<rparr>)))"

text \<open>\<open>f.Close()\<close> on a handle that is not nil: the call is counted; closing a closed
  handle is an error; after the call the handle is closed whether or not the system
  call reported an error.\<close>

definition fclose :: "env \<Rightarrow> fileid \<Rightarrow> osfile \<Rightarrow> error option \<times> osfile" where
  "fclose e fid f =
     (let f' = f\<lparr>closed := True, close_calls := Suc (close_calls f)\<rparr>
      in if closed f \<or> close_fails e fid then (Some ErrOS, f') else (None, f'))"

section \<open>Close\<close>

definition Close :: "env \<Rightarrow> DBF \<Rightarrow> error option \<times> DBF" where
  "Close e dbf =
     (case (case dbaseFile dbf of
              None \<Rightarrow> (None, dbf)
            | Some f \<Rightarrow>
                (let (err, f') = fclose e DBaseFile f
                 in (err, dbf\<lparr>dbaseFile := Some f'\<rparr>))) of
        (Some err, dbf1) \<Rightarrow> (Some (newError ''dbase-io-close-1'' err), dbf1)
      | (None, dbf1) \<Rightarrow>
          (case memoFile dbf1 of
             None \<Rightarrow> (None, dbf1)
           | Some m \<Rightarrow>
               (let (err, m') = fclose e MemoFile m
                in case err of
                     Some err' \<Rightarrow> (Some (newError ''dbase-io-close-2'' err'), dbf1\<lparr>memoFile := Some m'\<rparr>)
                   | None \<Rightarrow> (None, dbf1\<lparr>memoFile := Some m'\<rparr>))))"

section \<open>Cursor\<close>

text \<open>\<open>GoTo\<close>: the comparison is on \<open>uint32\<close>, so unsigned.\<close>

definition GoTo :: "32 word \<Rightarrow> DBF \<Rightarrow> error option \<times> DBF" where
  "GoTo rowNumber dbf =
     (if RowsCount (header dbf) < rowNumber
      then (Some (newError ''dbase-io-goto-1'' ErrEOF), dbf\<lparr>rowPointer := RowsCount (header dbf)\<rparr>)
      else (None, dbf\<lparr>rowPointer := rowNumber\<rparr>))"

text \<open>\<open>Skip\<close>: \<open>newval\<close> is an \<open>int64\<close> (the sum wraps), the two comparisons are
  signed, and the three assignments to the row pointer run one after the other, the
  last one unconditionally with \<open>uint32(newval)\<close>, the low 32 bits.\<close>

definition Skip :: "64 word \<Rightarrow> DBF \<Rightarrow> DBF" where
  "Skip off dbf =
     (let newval = (ucast (rowPointer dbf) :: 64 word) + off;
          dbf1 = (if (ucast (RowsCount (header dbf)) :: 64 word) \<le>s newval
                  then dbf\<lparr>rowPointer := RowsCount (header dbf)\<rparr> else dbf);
          dbf2 = (if newval <s 0 then dbf1\<lparr>rowPointer := 0\<rparr> else dbf1)
      in dbf2\<lparr>rowPointer := ucast newval\<rparr>)"

text \<open>The clamp the comment above \<open>Skip\<close> describes, on unbounded integers.\<close>

definition clamp_cursor :: "int \<Rightarrow> int \<Rightarrow> int" where
  "clamp_cursor rows v = (if rows < v then rows else if v < 0 then 0 else v)"

section \<open>Byte order\<close>

text \<open>\<open>toBinary\<close> of a \<open>uint32\<close> (\<open>binary.Write\<close>, little endian) and
  \<open>binary.BigEndian.PutUint32\<close> / \<open>PutUint16\<close>.\<close>

definition le32 :: "32 word \<Rightarrow> bytes" where
  "le32 w = [ucast w, ucast (drop_bit 8 w), ucast (drop_bit 16 w), ucast (drop_bit 24 w)]"

definition be32 :: "32 word \<Rightarrow> bytes" where
  "be32 w = [ucast (drop_bit 24 w), ucast (drop_bit 16 w), ucast (drop_bit 8 w), ucast w]"

definition be16 :: "16 word \<Rightarrow> bytes" where
  "be16 w = [ucast (drop_bit 8 w), ucast w]"

definition le16 :: "16 word \<Rightarrow> bytes" where
  "le16 w = [ucast w, ucast (drop_bit 8 w)]"

text \<open>\<open>binary.LittleEndian.Uint32(b)\<close> and \<open>binary.BigEndian.Uint32(b)\<close> read the
  first four bytes and panic (\<open>None\<close>) on a shorter slice.\<close>

fun LE_Uint32 :: "bytes \<Rightarrow> 32 word option" where
  "LE_Uint32 (a # b # c # d # _) =
     Some (ucast a OR push_bit 8 (ucast b) OR push_bit 16 (ucast c) OR push_bit 24 (ucast d))"
| "LE_Uint32 _ = None"

fun BE_Uint32 :: "bytes \<Rightarrow> 32 word option" where
  "BE_Uint32 (a # b # c # d # _) =
     Some (ucast d OR push_bit 8 (ucast c) OR push_bit 16 (ucast b) OR push_bit 24 (ucast a))"
| "BE_Uint32 _ = None"

section \<open>Advisory locks\<close>

text \<open>
  The retry loop around \<open>unix.FcntlFlock(fd, F_SETLK, flock)\<close>: it ends with the
  lock (\<open>Some None\<close>), ends with an error other than \<open>EAGAIN\<close>
  (\<open>Some (Some ErrOS)\<close>), or sleeps and tries again. A region that stays contended
  keeps the loop running for ever: the result is \<open>None\<close>.
\<close>

partial_function (option) setlk_retry :: "(nat \<Rightarrow> lock_result) \<Rightarrow> nat \<Rightarrow> error option option" where
  "setlk_retry outcome k =
     (if outcome k = LockOK then Some None
      else if outcome k = LockEAGAIN then setlk_retry outcome (Suc k)
      else Some (Some ErrOS))"

text \<open>The deferred unlock of \<open>writeHeader\<close>, \<open>writeMemoHeader\<close> and \<open>writeRow\<close>:
  each of them calls \<open>FcntlFlock\<close> on the descriptor of the table file, and an
  unlock error replaces the named result \<open>err\<close>.\<close>

definition ulock_deferred :: "env \<Rightarrow> string \<Rightarrow> error option \<Rightarrow> error option" where
  "ulock_deferred e site err =
     (if ulock_fails e DBaseFile then Some (newError site ErrOS) else err)"

section \<open>Table header\<close>

text \<open>
  Modelled from the spec: the declaration of the \<open>Header\<close> struct is not in the
  sources, so the bytes \<open>binary.Write\<close> produces for it follow the spec's table
  header: 32 bytes, the fields in the order listed, integers little endian, the
  bytes the spec does not name zero.
\<close>

definition header_bytes :: "Header \<Rightarrow> bytes" where
  "header_bytes h =
     [FileType h, Year h, Month h, Day h] @ le32 (RowsCount h) @ le16 (FirstRow h) @
     le16 (RowLength h) @ replicate 16 0 @ [TableFlags h, CodePage h] @ replicate 2 0"

text \<open>\<open>writeHeader\<close> stamps the header with the current date.\<close>

definition stamp_date :: "env \<Rightarrow> Header \<Rightarrow> Header" where
  "stamp_date e h = h\<lparr>Year := fst (today e), Month := fst (snd (today e)), Day := snd (snd (today e))\<rparr>"

text \<open>The part of \<open>writeHeader\<close> after the lock. \<open>binary.Write\<close> into a buffer
  cannot fail for a struct of fixed-size fields, so site 4 has no branch.\<close>

definition writeHeader_body :: "env \<Rightarrow> DBF \<Rightarrow> error option \<times> DBF" where
  "writeHeader_body e dbf =
     (case fseek e DBaseFile 0 (dbaseFile dbf) of
        (Some err, f) \<Rightarrow> (Some (newError ''dbase-io-writeheader-3'' err), dbf\<lparr>dbaseFile := f\<rparr>)
      | (None, f) \<Rightarrow>
          (let h = stamp_date e (header dbf);
               dbf1 = dbf\<lparr>dbaseFile := f, header := h\<rparr>
           in case fwrite e DBaseFile (header_bytes h) f of
                (Some err, f') \<Rightarrow> (Some (newError ''dbase-io-writeheader-5'' err), dbf1\<lparr>dbaseFile := f'\<rparr>)
              | (None, f') \<Rightarrow> (None, dbf1\<lparr>dbaseFile := f'\<rparr>)))"

definition writeHeader :: "env \<Rightarrow> DBF \<Rightarrow> (error option \<times> DBF) option" where
  "writeHeader e dbf =
     (if WriteLock dbf then
        (case setlk_retry (setlk e DBaseFile 0) 0 of
           None \<Rightarrow> None
         | Some (Some err) \<Rightarrow> Some (Some (newError ''dbase-io-writeheader-1'' err), dbf)
         | Some None \<Rightarrow>
             (let (err, dbf') = writeHeader_body e dbf
              in Some (ulock_deferred e ''dbase-io-writeheader-2'' err, dbf')))
      else Some (writeHeader_body e dbf))"

section \<open>Memo file\<close>

definition readMemo :: "env \<Rightarrow> bytes \<Rightarrow> DBF \<Rightarrow> (bytes \<times> bool \<times> error option) \<times> DBF" where
  "readMemo e blockdata dbf =
     (if memoFile dbf = None then (([], False, Some (newError ''dbase-io-readmemo-1'' ErrNoFPT)), dbf)
      else case LE_Uint32 blockdata of
        None \<Rightarrow> (([], False, Some (Panic ''index out of range'')), dbf)
      | Some block \<Rightarrow>
         (case fseek e MemoFile (uint (BlockSize (memoHeader dbf)) * uint block) (memoFile dbf) of
            (Some err, f) \<Rightarrow> (([], False, Some (newError ''dbase-io-readmemo-2'' err)), dbf\<lparr>memoFile := f\<rparr>)
          | (None, f) \<Rightarrow>
             (case fread e MemoFile 8 f of
                ((got, Some err), f1) \<Rightarrow>
                  (([], False, Some (newError ''dbase-io-readmemo-3'' err)), dbf\<lparr>memoFile := f1\<rparr>)
              | ((got, None), f1) \<Rightarrow>
                 (let hbuf = buffer 8 got in
                  case (BE_Uint32 (take 4 hbuf), BE_Uint32 (drop 4 hbuf)) of
                    (Some sign, Some leng) \<Rightarrow>
                      if leng = 0 then (([], sign = 1, None), dbf\<lparr>memoFile := f1\<rparr>)
                      else
                        (case fread e MemoFile (unat leng) f1 of
                           ((got2, Some err), f2) \<Rightarrow>
                             ((buffer (unat leng) got2, False, Some (newError ''dbase-io-readmemo-4'' err)),
                              dbf\<lparr>memoFile := f2\<rparr>)
                         | ((got2, None), f2) \<Rightarrow>
                             if length got2 \<noteq> unat leng
                             then ((buffer (unat leng) got2, sign = 1,
                                    Some (newError ''dbase-io-readmemo-5'' ErrIncomplete)),
                                   dbf\<lparr>memoFile := f2\<rparr>)
                             else ((buffer (unat leng) got2, sign = 1, None), dbf\<lparr>memoFile := f2\<rparr>))
                  | _ \<Rightarrow> (([], False, Some (Panic ''index out of range'')), dbf\<lparr>memoFile := f1\<rparr>)))))"

text \<open>The eight bytes \<open>writeMemoHeader\<close> writes: \<open>NextFree\<close> big endian, two
  bytes left zero, \<open>BlockSize\<close> big endian.\<close>

definition memo_header_bytes :: "MemoHeader \<Rightarrow> bytes" where
  "memo_header_bytes mh = be32 (NextFree mh) @ [0, 0] @ be16 (BlockSize mh)"

definition writeMemoHeader_body :: "env \<Rightarrow> DBF \<Rightarrow> error option \<times> DBF" where
  "writeMemoHeader_body e dbf =
     (case fseek e MemoFile 0 (memoFile dbf) of
        (Some err, f) \<Rightarrow> (Some (newError ''dbase-io-writememoheader-4'' err), dbf\<lparr>memoFile := f\<rparr>)
      | (None, f) \<Rightarrow>
          (let mh = (memoHeader dbf)\<lparr>NextFree := NextFree (memoHeader dbf) + 1\<rparr>;
               dbf1 = dbf\<lparr>memoFile := f, memoHeader := mh\<rparr>
           in case fwrite e MemoFile (memo_header_bytes mh) f of
                (Some err, f') \<Rightarrow> (Some (newError ''dbase-io-writememoheader-5'' err), dbf1\<lparr>memoFile := f'\<rparr>)
              | (None, f') \<Rightarrow> (None, dbf1\<lparr>memoFile := f'\<rparr>)))"

definition writeMemoHeader :: "env \<Rightarrow> DBF \<Rightarrow> (error option \<times> DBF) option" where
  "writeMemoHeader e dbf =
     (if memoFile dbf = None then Some (Some (newError ''dbase-io-writememoheader-1'' ErrNoFPT), dbf)
      else if WriteLock dbf then
        (case setlk_retry (setlk e MemoFile 0) 0 of
           None \<Rightarrow> None
         | Some (Some err) \<Rightarrow> Some (Some (newError ''dbase-io-writememoheader-2'' err), dbf)
         | Some None \<Rightarrow>
             (let (err, dbf') = writeMemoHeader_body e dbf
              in Some (ulock_deferred e ''dbase-io-writememoheader-3'' err, dbf')))
      else Some (writeMemoHeader_body e dbf))"

text \<open>The block \<open>writeMemo\<close> puts together: \<open>make([]byte, BlockSize)\<close>, the sign
  in \<open>block[:4]\<close>, \<open>uint32(length)\<close> in \<open>block[4:8]\<close>, and \<open>copy(block[8:], raw)\<close>,
  which copies as many bytes as fit. The slice expressions panic when the block is
  shorter than 4 or 8 bytes.\<close>

definition block_bytes :: "nat \<Rightarrow> bytes \<Rightarrow> bool \<Rightarrow> int \<Rightarrow> bytes" where
  "block_bytes bsize raw txt len =
     be32 (if txt then 1 else 0) @ be32 (word_of_int len) @ buffer (bsize - 8) raw"

definition memo_block :: "nat \<Rightarrow> bytes \<Rightarrow> bool \<Rightarrow> int \<Rightarrow> error + bytes" where
  "memo_block bsize raw txt len =
     (if bsize < 4 then Inl (Panic ''slice bounds out of range [:4]'')
      else if bsize < 8 then Inl (Panic ''slice bounds out of range [:8]'')
      else Inr (block_bytes bsize raw txt len))"

text \<open>The part of \<open>writeMemo\<close> after the block lock. The deferred unlock of
  \<open>writeMemo\<close> assigns to a local variable (the results are not named), so it does
  not change what is returned. \<open>toBinary\<close> of a \<open>uint32\<close> cannot fail, so site 7
  has no branch.\<close>

definition writeMemo_body :: "env \<Rightarrow> 32 word \<Rightarrow> bytes \<Rightarrow> DBF \<Rightarrow> (error + bytes) \<times> DBF" where
  "writeMemo_body e blockPosition block dbf =
     (case fseek e MemoFile (uint blockPosition * uint (BlockSize (memoHeader dbf))) (memoFile dbf) of
        (Some err, f) \<Rightarrow> (Inl (newError ''dbase-io-writememo-5'' err), dbf\<lparr>memoFile := f\<rparr>)
      | (None, f) \<Rightarrow>
          (case fwrite e MemoFile block f of
             (Some err, f') \<Rightarrow> (Inl (newError ''dbase-io-writememo-6'' err), dbf\<lparr>memoFile := f'\<rparr>)
           | (None, f') \<Rightarrow> (Inr (le32 blockPosition), dbf\<lparr>memoFile := f'\<rparr>)))"

definition writeMemo :: "env \<Rightarrow> bytes \<Rightarrow> bool \<Rightarrow> int \<Rightarrow> DBF \<Rightarrow> ((error + bytes) \<times> DBF) option" where
  "writeMemo e raw txt len dbf =
     (if memoFile dbf = None then Some (Inl (newError ''dbase-io-writememo-1'' ErrNoFPT), dbf)
      else
        (let blockPosition = NextFree (memoHeader dbf) in
         case writeMemoHeader e dbf of
           None \<Rightarrow> None
         | Some (Some err, dbf1) \<Rightarrow> Some (Inl (newError ''dbase-io-writememo-2'' err), dbf1)
         | Some (None, dbf1) \<Rightarrow>
            (case memo_block (unat (BlockSize (memoHeader dbf1))) raw txt len of
               Inl p \<Rightarrow> Some (Inl p, dbf1)
             | Inr block \<Rightarrow>
                if WriteLock dbf1 then
                  (case setlk_retry (setlk e MemoFile (uint blockPosition)) 0 of
                     None \<Rightarrow> None
                   | Some (Some err) \<Rightarrow> Some (Inl (newError ''dbase-io-writememo-3'' err), dbf1)
                   | Some None \<Rightarrow> Some (writeMemo_body e blockPosition block dbf1))
                else Some (writeMemo_body e blockPosition block dbf1))))"

section \<open>Rows\<close>

text \<open>The file offset \<open>FirstRow + i * RowLength\<close>, computed in \<open>int64\<close> from a
  \<open>uint16\<close>, a \<open>uint32\<close> and a \<open>uint16\<close>: it cannot overflow.\<close>

definition row_offset :: "Header \<Rightarrow> 32 word \<Rightarrow> int" where
  "row_offset h i = uint (FirstRow h) + uint i * uint (RowLength h)"


text \<open>The part of \<open>writeRow\<close> after the row lock.\<close>

definition writeRow_body :: "env \<Rightarrow> int \<Rightarrow> bytes \<Rightarrow> DBF \<Rightarrow> error option \<times> DBF" where
  "writeRow_body e position r dbf =
     (case fseek e DBaseFile position (dbaseFile dbf) of
        (Some err, f) \<Rightarrow> (Some (newError ''dbase-io-writerow-5'' err), dbf\<lparr>dbaseFile := f\<rparr>)
      | (None, f) \<Rightarrow>
          (case fwrite e DBaseFile r f of
             (Some err, f') \<Rightarrow> (Some (newError ''dbase-io-writerow-6'' err), dbf\<lparr>dbaseFile := f'\<rparr>)
           | (None, f') \<Rightarrow> (None, dbf\<lparr>dbaseFile := f'\<rparr>)))"

text \<open>
  \<open>writeRow\<close>. \<open>row.ToBytes()\<close> is not in the sources: it is the parameter
  \<open>ToBytes\<close>, which encodes the fields of the row (writing memo blocks on the
  way, hence the handle it returns, and \<open>None\<close> when it does not return).
  \<open>rowPos\<close> is \<open>row.Position\<close>, a \<open>uint32\<close>: \<open>row.Position-1\<close> is computed
  in \<open>uint32\<close> and then widened.
\<close>

definition writeRow ::
  "env \<Rightarrow> (DBF \<Rightarrow> ((error + bytes) \<times> DBF) option) \<Rightarrow> 32 word \<Rightarrow> DBF \<Rightarrow> (error option \<times> DBF) option" where
  "writeRow e ToBytes rowPos dbf =
     (case ToBytes dbf of
        None \<Rightarrow> None
      | Some (Inl err, dbf0) \<Rightarrow> Some (Some (newError ''dbase-io-writerow-1'' err), dbf0)
      | Some (Inr r, dbf0) \<Rightarrow>
          (let h = header dbf0;
               append = (RowsCount h \<le> rowPos);
               position = (if append then row_offset h (rowPos - 1) else row_offset h rowPos);
               dbf1 = (if append then dbf0\<lparr>header := h\<lparr>RowsCount := RowsCount h + 1\<rparr>\<rparr> else dbf0)
           in case writeHeader e dbf1 of
                None \<Rightarrow> None
              | Some (Some err, dbf2) \<Rightarrow> Some (Some (newError ''dbase-io-writerow-2'' err), dbf2)
              | Some (None, dbf2) \<Rightarrow>
                  if WriteLock dbf2 then
                    (case setlk_retry (setlk e DBaseFile position) 0 of
                       None \<Rightarrow> None
                     | Some (Some err) \<Rightarrow> Some (Some (newError ''dbase-io-writerow-3'' err), dbf2)
                     | Some None \<Rightarrow>
                         (let (err, dbf3) = writeRow_body e position r dbf2
                          in Some (ulock_deferred e ''dbase-io-writerow-4'' err, dbf3)))
                  else Some (writeRow_body e position r dbf2)))"

section \<open>Value codec\<close>

text \<open>
  A \<open>float64\<close> that the code computes is held by its exact value, a rational number.
  \<open>f64_round\<close> rounds a rational to the nearest \<open>float64\<close> (a significand of 53
  bits, ties to the even significand); the exponent range is not modelled, which is
  exact for values that are zero or between \<open>2^-1022\<close> and \<open>2^1024\<close> in magnitude.
  \<open>bits n\<close> is the length of n in binary.
\<close>

function bits :: "int \<Rightarrow> int" where
  "bits n = (if n \<le> 0 then 0 else 1 + bits (n div 2))"
  by pat_completeness auto
termination
  by (relation "measure nat") auto

definition pow2 :: "int \<Rightarrow> rat" where
  "pow2 k = (if 0 \<le> k then 2 ^ nat k else 1 / 2 ^ nat (- k))"

definition round_half_even :: "rat \<Rightarrow> int" where
  "round_half_even m =
     (let f = \<lfloor>m\<rfloor>; r = m - of_int f
      in if r < 1 / 2 then f else if 1 / 2 < r then f + 1 else if even f then f else f + 1)"

definition f64_round :: "rat \<Rightarrow> rat" where
  "f64_round x =
     (if x = 0 then 0
      else let (p, q) = quotient_of \<bar>x\<bar>;
               k = bits p - bits q;
               fl = (if pow2 k \<le> \<bar>x\<bar> then k else k - 1);
               s = fl - 52
           in sgn x * of_int (round_half_even (\<bar>x\<bar> / pow2 s)) * pow2 s)"

text \<open>The conversions \<open>float64(u)\<close> of a \<open>uint64\<close> and of an \<open>int64\<close>, and the
  division of two \<open>float64\<close> values.\<close>

definition f64_of_uint64 :: "64 word \<Rightarrow> rat" where
  "f64_of_uint64 u = f64_round (of_int (uint u))"

definition f64_of_int64 :: "64 word \<Rightarrow> rat" where
  "f64_of_int64 u = f64_round (of_int (sint u))"

definition f64_div :: "rat \<Rightarrow> rat \<Rightarrow> rat" where
  "f64_div a b = f64_round (a / b)"

fun LE_Uint64 :: "bytes \<Rightarrow> 64 word option" where
  "LE_Uint64 (a # b # c # d # e # f # g # h # _) =
     Some (ucast a OR push_bit 8 (ucast b) OR push_bit 16 (ucast c) OR push_bit 24 (ucast d) OR
           push_bit 32 (ucast e) OR push_bit 40 (ucast f) OR push_bit 48 (ucast g) OR
           push_bit 56 (ucast h))"
| "LE_Uint64 _ = None"

text \<open>
  The dynamic values of a field (\<open>interface{}\<close>): a Go string and a byte slice are
  both lists of bytes; an \<open>int32\<close> and an \<open>int64\<close> are words (read with \<open>sint\<close>);
  a \<open>float64\<close> is held by its value, or by its bit pattern where the code only moves
  the bits (\<open>math.Float64frombits\<close>); \<open>'t\<close> stands for \<open>time.Time\<close>.
\<close>

datatype 't field_value =
    VNil
  | VString bytes
  | VBytes bytes
  | VInt32 "32 word"
  | VInt64 "64 word"
  | VFloat64 rat
  | VFloat64bits "64 word"
  | VBool bool
  | VTime 't

text \<open>
  The functions the codec calls whose code is not in the sources, as parameters: the
  character-set converter behind \<open>toUTF8String\<close>, \<open>fromUtf8String\<close> and
  \<open>Converter.Decode\<close>, and the parsers of dates, date-times and numbers.
\<close>

record 't helpers =
  toUTF8String :: "bytes \<Rightarrow> error + bytes"
  fromUtf8String :: "bytes \<Rightarrow> error + bytes"
  Decode :: "bytes \<Rightarrow> error + bytes"
  parseDate :: "bytes \<Rightarrow> error + 't"
  parseDateTime :: "bytes \<Rightarrow> error + 't"
  parseNumericInt :: "bytes \<Rightarrow> error + 64 word"
  parseFloat :: "bytes \<Rightarrow> error + rat"

text \<open>The type code of a column, \<open>column.Type()\<close>, is the one-character string of
  the byte \<open>DataType\<close>; \<open>type_code c\<close> is the byte of an ASCII character.\<close>

definition type_code :: "char \<Rightarrow> byte" where
  "type_code c = of_nat (of_char c)"

definition supported_types :: "byte list" where
  "supported_types = map type_code ''BCDFILMNTVY''"

text \<open>A panic is not an error value: it passes through every caller unwrapped.\<close>

fun wrap :: "string \<Rightarrow> error \<Rightarrow> error" where
  "wrap site (Panic p) = Panic p"
| "wrap site err = Wrap site err"

definition parseMemo :: "env \<Rightarrow> 't helpers \<Rightarrow> bytes \<Rightarrow> DBF \<Rightarrow> (error + bytes \<times> bool) \<times> DBF" where
  "parseMemo e hp raw dbf =
     (case readMemo e raw dbf of
        ((memo, isText, Some err), dbf') \<Rightarrow> (Inl (wrap ''dbase-io-parse-memo-1'' err), dbf')
      | ((memo, isText, None), dbf') \<Rightarrow>
          if isText then
            (case Decode hp memo of
               Inl err \<Rightarrow> (Inl (wrap ''dbase-io-parse-memo-2'' err), dbf')
             | Inr memo' \<Rightarrow> (Inr (memo', isText), dbf'))
          else (Inr (memo, isText), dbf'))"

text \<open>\<open>dataToValue\<close>. The cases follow the \<open>switch\<close>; \<open>N\<close> with decimals falls
  through to \<open>F\<close>. A value returned next to an error is dropped.\<close>

definition dataToValue ::
  "env \<Rightarrow> 't helpers \<Rightarrow> bytes \<Rightarrow> Column \<Rightarrow> DBF \<Rightarrow> (error + 't field_value) \<times> DBF" where
  "dataToValue e hp raw column dbf =
     (let ty = DataType column in
      if length raw \<noteq> unat (Length column)
      then (Inl (Failed ''dbase-interpreter-datatovalue-1''), dbf)
      else if ty = type_code CHR ''M'' then
        (case parseMemo e hp raw dbf of
           (Inl err, dbf') \<Rightarrow> (Inl (wrap ''dbase-interpreter-datatovalue-2'' err), dbf')
         | (Inr (memo, isText), dbf') \<Rightarrow>
             (Inr (if isText then VString memo else VBytes memo), dbf'))
      else if ty = type_code CHR ''C'' then
        (case toUTF8String hp raw of
           Inl err \<Rightarrow> (Inl (wrap ''dbase-interpreter-datatovalue-4'' err), dbf)
         | Inr str \<Rightarrow> (Inr (VString str), dbf))
      else if ty = type_code CHR ''I'' then
        (case LE_Uint32 raw of
           None \<Rightarrow> (Inl (Panic ''index out of range''), dbf)
         | Some w \<Rightarrow> (Inr (VInt32 w), dbf))
      else if ty = type_code CHR ''B'' then
        (case LE_Uint64 raw of
           None \<Rightarrow> (Inl (Panic ''index out of range''), dbf)
         | Some w \<Rightarrow> (Inr (VFloat64bits w), dbf))
      else if ty = type_code CHR ''D'' then
        (case parseDate hp raw of
           Inl err \<Rightarrow> (Inl (wrap ''dbase-interpreter-datatovalue-5'' err), dbf)
         | Inr date \<Rightarrow> (Inr (VTime date), dbf))
      else if ty = type_code CHR ''T'' then
        (case parseDateTime hp raw of
           Inl err \<Rightarrow> (Inl (wrap ''dbase-interpreter-datatovalue-6'' err), dbf)
         | Inr dateTime \<Rightarrow> (Inr (VTime dateTime), dbf))
      else if ty = type_code CHR ''L'' then (Inr (VBool (raw = [type_code CHR ''T''])), dbf)
      else if ty = type_code CHR ''V'' then (Inr (VBytes raw), dbf)
      else if ty = type_code CHR ''Y'' then
        (case LE_Uint64 raw of
           None \<Rightarrow> (Inl (Panic ''index out of range''), dbf)
         | Some w \<Rightarrow> (Inr (VFloat64 (f64_div (f64_of_uint64 w) 10000)), dbf))
      else if ty = type_code CHR ''N'' \<and> Decimals column = 0 then
        (case parseNumericInt hp raw of
           Inl err \<Rightarrow> (Inl (wrap ''dbase-interpreter-datatovalue-7'' err), dbf)
         | Inr i \<Rightarrow> (Inr (VInt64 i), dbf))
      else if ty = type_code CHR ''N'' \<or> ty = type_code CHR ''F'' then
        (case parseFloat hp raw of
           Inl err \<Rightarrow> (Inl (wrap ''dbase-interpreter-datatovalue-8'' err), dbf)
         | Inr f \<Rightarrow> (Inr (VFloat64 f), dbf))
      else (Inl (Failed ''dbase-interpreter-datatovalue-9''), dbf))"

text \<open>Go's \<open>copy(dst, src)\<close>: as many bytes as both slices hold.\<close>

definition copy_bytes :: "bytes \<Rightarrow> bytes \<Rightarrow> bytes" where
  "copy_bytes dst src = take (length dst) src @ drop (length src) dst"

text \<open>
  Modelled from the spec: \<open>appendSpaces\<close> is not in the sources; by the spec's
  encoding of a \<open>C\<close> column it pads the encoded text on the right with spaces
  (0x20) to the length given, and leaves a text that is already as long alone.
\<close>

definition appendSpaces :: "bytes \<Rightarrow> nat \<Rightarrow> bytes" where
  "appendSpaces raw n = (if length raw < n then raw @ replicate (n - length raw) 0x20 else raw)"

definition getCRepresentation :: "'t helpers \<Rightarrow> 't field_value \<Rightarrow> Column \<Rightarrow> error + bytes" where
  "getCRepresentation hp v column =
     (case v of
        VString c \<Rightarrow>
          (let raw = replicate (unat (Length column)) 0 in
           case fromUtf8String hp c of
             Inl err \<Rightarrow> Inl (wrap ''dbase-interpreter-getcrepresentation-2'' err)
           | Inr bin \<Rightarrow>
               (let bin' = appendSpaces bin (unat (Length column));
                    raw' = copy_bytes raw bin'
                in if unat (Length column) < length raw'
                   then Inl (Failed ''dbase-interpreter-getcrepresentation-3'')
                   else Inr raw'))
      | _ \<Rightarrow> Inl (Failed ''dbase-interpreter-getcrepresentation-1''))"

section \<open>Search\<close>







text \<open>
  What the scan sees of row \<open>i\<close>, stated on the handle as it is when \<open>Search\<close> is
  called: \<open>scan_field\<close> is the bytes of the field, when the seek to the field and
  the read of \<open>column.Length\<close> bytes succeed and the read is not short;
  \<open>materialise\<close> is the row that \<open>GoTo(i)\<close> and \<open>Row()\<close> give, when both
  succeed; \<open>match_row\<close> is the row that the scan adds to its result.
\<close>

definition scan_field :: "env \<Rightarrow> Column \<Rightarrow> DBF \<Rightarrow> nat \<Rightarrow> bytes option" where
  "scan_field e c dbf i =
     (case fseek e DBaseFile (row_offset (header dbf) (of_nat i) + uint (Position c)) (dbaseFile dbf) of
        (Some err, f) \<Rightarrow> None
      | (None, f) \<Rightarrow>
          (case fst (fread e DBaseFile (unat (Length c)) f) of
             (got, Some err) \<Rightarrow> None
           | (got, None) \<Rightarrow> if length got = unat (Length c) then Some got else None))"



section \<open>Conditions on the environment\<close>

text \<open>The k-th attempt of a retry loop gets the lock, every earlier one found the
  region locked.\<close>

definition granted_at :: "(nat \<Rightarrow> lock_result) \<Rightarrow> nat \<Rightarrow> bool" where
  "granted_at outcome k = (outcome k = LockOK \<and> list_all (\<lambda>j. outcome j = LockEAGAIN) [0..<k])"


text \<open>None of the system calls that writing the table header and writing a row at
  \<open>off\<close> make on the table file reports an error.\<close>

definition table_calls_ok :: "env \<Rightarrow> int \<Rightarrow> bool" where
  "table_calls_ok e off =
     (\<not> seek_fails e DBaseFile 0 \<and> \<not> write_fails e DBaseFile 0 \<and>
      \<not> seek_fails e DBaseFile off \<and> \<not> write_fails e DBaseFile (nat off))"

text \<open>A handle that differs from \<open>dbf\<close> at most in the offset of the table file's
  descriptor and in the cursor: what the rounds of the scan leave of the handle.\<close>

definition reposition :: "nat \<Rightarrow> 32 word \<Rightarrow> DBF \<Rightarrow> DBF" where
  "reposition p rp dbf =
     dbf\<lparr>dbaseFile := map_option (\<lambda>f. f\<lparr>pos := p\<rparr>) (dbaseFile dbf), rowPointer := rp\<rparr>"

section \<open>Example handles\<close>

definition no_faults :: env where
  "no_faults = \<lparr>seek_fails = (\<lambda>_ _. False), read_fails = (\<lambda>_ _. False),
     write_fails = (\<lambda>_ _. False), close_fails = (\<lambda>_. False),
     setlk = (\<lambda>_ _ _. LockOK), ulock_fails = (\<lambda>_. False), today = (24, 1, 31)\<rparr>"

definition dbase_close_fails :: env where
  "dbase_close_fails = no_faults\<lparr>close_fails := (\<lambda>fid. fid = DBaseFile)\<rparr>"

definition empty_file :: osfile where
  "empty_file = \<lparr>data = [], pos = 0, closed = False, close_calls = 0\<rparr>"

definition header3 :: Header where
  "header3 = \<lparr>FileType = 0x30, Year = 24, Month = 1, Day = 1, RowsCount = 3,
     FirstRow = 100, RowLength = 10, TableFlags = 2, CodePage = 3\<rparr>"

definition small_dbf :: DBF where
  "small_dbf = \<lparr>WriteLock = False, dbaseFile = Some empty_file, memoFile = Some empty_file,
     header = header3, memoHeader = \<lparr>NextFree = 1, BlockSize = 64\<rparr>, rowPointer = 0\<rparr>"


text \<open>A table with a memo file of two 16-byte blocks (the header block and block 1),
  next free block 2, and the payload of scenario S5.\<close>

definition memo_file :: osfile where
  "memo_file = \<lparr>data = [0, 0, 0, 2, 0, 0, 0, 16] @ replicate 24 0, pos = 0, closed = False,
     close_calls = 0\<rparr>"

definition memo_dbf :: DBF where
  "memo_dbf = \<lparr>WriteLock = False, dbaseFile = Some empty_file, memoFile = Some memo_file,
     header = header3, memoHeader = \<lparr>NextFree = 2, BlockSize = 16\<rparr>, rowPointer = 0\<rparr>"

definition hello :: bytes where
  "hello = [0x68, 0x65, 0x6C, 0x6C, 0x6F]"

text \<open>A table file with the header area up to offset 100 and three rows of ten
  bytes, and a new row of ten bytes whose encoding succeeds.\<close>

definition table_file :: osfile where
  "table_file = \<lparr>data = replicate 100 0 @ replicate 10 0x41 @ replicate 10 0x42 @ replicate 10 0x43,
     pos = 0, closed = False, close_calls = 0\<rparr>"

definition table_dbf :: DBF where
  "table_dbf = \<lparr>WriteLock = False, dbaseFile = Some table_file, memoFile = None,
     header = header3, memoHeader = \<lparr>NextFree = 0, BlockSize = 0\<rparr>, rowPointer = 0\<rparr>"

definition new_row :: bytes where
  "new_row = 0x20 # replicate 9 0x44"

definition encode_new_row :: "DBF \<Rightarrow> ((error + bytes) \<times> DBF) option" where
  "encode_new_row dbf = Some (Inr new_row, dbf)"

text \<open>A converter that leaves the bytes as they are, parsers that always fail, a
  currency column, a character column of ten bytes, a column of an unknown type, and
  the eight bytes of \<open>int64(-10000)\<close> and of \<open>int64(12345000)\<close> in little-endian
  order (the stored forms of the currency values -1 and 1234.5).\<close>

definition plain_helpers :: "unit helpers" where
  "plain_helpers = \<lparr>toUTF8String = Inr, fromUtf8String = Inr, Decode = Inr,
     parseDate = (\<lambda>_. Inl ErrOS), parseDateTime = (\<lambda>_. Inl ErrOS),
     parseNumericInt = (\<lambda>_. Inl ErrOS), parseFloat = (\<lambda>_. Inl ErrOS)\<rparr>"

definition price_column :: Column where
  "price_column = \<lparr>Name = [], DataType = type_code CHR ''Y'', Position = 1, Length = 8, Decimals = 4\<rparr>"

definition name_column :: Column where
  "name_column = \<lparr>Name = [], DataType = type_code CHR ''C'', Position = 1, Length = 10, Decimals = 0\<rparr>"

definition unknown_column :: Column where
  "unknown_column = \<lparr>Name = [], DataType = type_code CHR ''X'', Position = 1, Length = 4, Decimals = 0\<rparr>"

definition minus_one_raw :: bytes where
  "minus_one_raw = [0xF0, 0xD8, 0xFF, 0xFF, 0xFF, 0xFF, 0xFF, 0xFF]"

definition price_raw :: bytes where
  "price_raw = [0xA8, 0x5E, 0xBC, 0, 0, 0, 0, 0]"

definition bob :: bytes where
  "bob = [0x42, 0x4F, 0x42]"






section \<open>Theorems\<close>

subsection \<open>Bytes, files and locks\<close>

lemma setlk_retry_from:
  "outcome k = LockOK \<Longrightarrow> \<forall>j. i \<le> j \<and> j < k \<longrightarrow> outcome j = LockEAGAIN \<Longrightarrow> i \<le> k \<Longrightarrow>
   setlk_retry outcome i = Some None"
proof (induction "k - i" arbitrary: i)
  case 0
  then have "i = k" by simp
  with "0.prems" show ?case by (subst setlk_retry.simps) simp
next
  case (Suc d)
  then have lt: "i < k" by simp
  with Suc.prems have eag: "outcome i = LockEAGAIN" by simp
  have "setlk_retry outcome (Suc i) = Some None"
    using Suc.hyps Suc.prems lt by (intro Suc.hyps(1)) auto
  with eag show ?case by (subst setlk_retry.simps) simp
qed

lemma setlk_retry_granted:
  "granted_at outcome k \<Longrightarrow> setlk_retry outcome 0 = Some None"
  by (rule setlk_retry_from [where k = k]) (auto simp: granted_at_def list_all_iff)

lemma length_be32 [simp]: "length (be32 w) = 4" by (simp add: be32_def)
lemma length_le32 [simp]: "length (le32 w) = 4" by (simp add: le32_def)
lemma length_be16 [simp]: "length (be16 w) = 2" by (simp add: be16_def)


lemma BE_Uint32_be32: "BE_Uint32 (be32 w @ rest) = Some w"
  apply (simp add: be32_def)
  apply (rule bit_word_eqI)
  subgoal for n
    by (cases "n < 8"; cases "n < 16"; cases "n < 24") (auto simp: bit_simps)
  done

lemma drop_write_at: "drop off (write_at old off bs) = bs @ drop (off + length bs) old"
  by (simp add: write_at_def)

lemma length_buffer [simp]: "length (buffer n got) = n"
  by (simp add: buffer_def)


lemma writeMemoHeader_body_ok:
  assumes "memoFile dbf = Some f" "\<not> closed f" "\<not> seek_fails e MemoFile 0" "\<not> write_fails e MemoFile 0"
  shows "writeMemoHeader_body e dbf =
    (None, dbf\<lparr>memoFile := Some (f\<lparr>data := write_at (data f) 0 (memo_header_bytes ((memoHeader dbf)\<lparr>NextFree := NextFree (memoHeader dbf) + 1\<rparr>)), pos := 8\<rparr>),
               memoHeader := (memoHeader dbf)\<lparr>NextFree := NextFree (memoHeader dbf) + 1\<rparr>\<rparr>)"
  using assms
  by (simp add: writeMemoHeader_body_def fseek_def fwrite_def Let_def memo_header_bytes_def be32_def be16_def)

lemma writeMemoHeader_ok:
  assumes "memoFile dbf = Some f" "\<not> closed f" "\<not> seek_fails e MemoFile 0" "\<not> write_fails e MemoFile 0"
    and "WriteLock dbf \<longrightarrow> setlk_retry (setlk e MemoFile 0) 0 = Some None \<and> \<not> ulock_fails e DBaseFile"
  shows "writeMemoHeader e dbf =
    Some (None, dbf\<lparr>memoFile := Some (f\<lparr>data := write_at (data f) 0 (memo_header_bytes ((memoHeader dbf)\<lparr>NextFree := NextFree (memoHeader dbf) + 1\<rparr>)), pos := 8\<rparr>),
               memoHeader := (memoHeader dbf)\<lparr>NextFree := NextFree (memoHeader dbf) + 1\<rparr>\<rparr>)"
proof (cases "WriteLock dbf")
  case False
  then show ?thesis
    using assms(1) writeMemoHeader_body_ok [OF assms(1-4)] by (simp add: writeMemoHeader_def)
next
  case True
  with assms(5) have "setlk_retry (setlk e MemoFile 0) 0 = Some None" and "\<not> ulock_fails e DBaseFile"
    by simp_all
  with True show ?thesis
    using assms(1) writeMemoHeader_body_ok [OF assms(1-4)]
    by (simp add: writeMemoHeader_def ulock_deferred_def)
qed


lemma length_block_bytes: "8 \<le> bsize \<Longrightarrow> length (block_bytes bsize raw txt len) = bsize"
  by (simp add: block_bytes_def)

lemma block_bytes_not_Nil: "block_bytes bsize raw txt len \<noteq> []"
  by (simp add: block_bytes_def be32_def)

lemma writeMemo_body_ok:
  assumes "memoFile dbf = Some g" "\<not> closed g" "block \<noteq> []"
    and "\<not> seek_fails e MemoFile (uint n * uint (BlockSize (memoHeader dbf)))"
    and "\<not> write_fails e MemoFile (nat (uint n * uint (BlockSize (memoHeader dbf))))"
  shows "writeMemo_body e n block dbf =
    (Inr (le32 n), dbf\<lparr>memoFile := Some (g\<lparr>
        data := write_at (data g) (nat (uint n * uint (BlockSize (memoHeader dbf)))) block,
        pos := nat (uint n * uint (BlockSize (memoHeader dbf))) + length block\<rparr>)\<rparr>)"
  using assms
  by (simp add: writeMemo_body_def fseek_def fwrite_def not_less)

lemma writeMemo_ok:
  assumes f: "memoFile dbf = Some f" "\<not> closed f"
    and bs: "8 \<le> unat (BlockSize (memoHeader dbf))"
    and io: "\<not> seek_fails e MemoFile 0" "\<not> write_fails e MemoFile 0"
            "\<not> seek_fails e MemoFile (uint (NextFree (memoHeader dbf)) * uint (BlockSize (memoHeader dbf)))"
            "\<not> write_fails e MemoFile (nat (uint (NextFree (memoHeader dbf)) * uint (BlockSize (memoHeader dbf))))"
    and lk: "WriteLock dbf \<longrightarrow> setlk_retry (setlk e MemoFile 0) 0 = Some None \<and>
               setlk_retry (setlk e MemoFile (uint (NextFree (memoHeader dbf)))) 0 = Some None \<and>
               \<not> ulock_fails e DBaseFile"
  shows "writeMemo e raw txt len dbf =
    Some (Inr (le32 (NextFree (memoHeader dbf))),
      dbf\<lparr>memoFile := Some (f\<lparr>
          data := write_at (write_at (data f) 0 (memo_header_bytes ((memoHeader dbf)\<lparr>NextFree := NextFree (memoHeader dbf) + 1\<rparr>)))
                    (nat (uint (NextFree (memoHeader dbf)) * uint (BlockSize (memoHeader dbf))))
                    (block_bytes (unat (BlockSize (memoHeader dbf))) raw txt len),
          pos := nat (uint (NextFree (memoHeader dbf)) * uint (BlockSize (memoHeader dbf)))
                   + unat (BlockSize (memoHeader dbf))\<rparr>),
        memoHeader := (memoHeader dbf)\<lparr>NextFree := NextFree (memoHeader dbf) + 1\<rparr>\<rparr>)"
proof -
  let ?mh = "memoHeader dbf"
  let ?f1 = "f\<lparr>data := write_at (data f) 0 (memo_header_bytes (?mh\<lparr>NextFree := NextFree ?mh + 1\<rparr>)), pos := 8\<rparr>"
  let ?dbf1 = "dbf\<lparr>memoFile := Some ?f1, memoHeader := ?mh\<lparr>NextFree := NextFree ?mh + 1\<rparr>\<rparr>"
  have hdr: "writeMemoHeader e dbf = Some (None, ?dbf1)"
    using lk by (intro writeMemoHeader_ok [OF f io(1,2)]) simp
  have blk: "memo_block (unat (BlockSize (memoHeader ?dbf1))) raw txt len = Inr (block_bytes (unat (BlockSize ?mh)) raw txt len)"
    using bs by (simp add: memo_block_def block_bytes_def)
  have body: "writeMemo_body e (NextFree ?mh) (block_bytes (unat (BlockSize ?mh)) raw txt len) ?dbf1 =
    (Inr (le32 (NextFree ?mh)), ?dbf1\<lparr>memoFile := Some (?f1\<lparr>
        data := write_at (data ?f1) (nat (uint (NextFree ?mh) * uint (BlockSize (memoHeader ?dbf1)))) (block_bytes (unat (BlockSize ?mh)) raw txt len),
        pos := nat (uint (NextFree ?mh) * uint (BlockSize (memoHeader ?dbf1))) + length (block_bytes (unat (BlockSize ?mh)) raw txt len)\<rparr>)\<rparr>)"
    using f io by (intro writeMemo_body_ok) (simp_all add: block_bytes_not_Nil)
  have lock2: "WriteLock dbf \<Longrightarrow> setlk_retry (setlk e MemoFile (uint (NextFree ?mh))) 0 = Some None"
    using lk by simp
  show ?thesis
    using f hdr blk body lock2 length_block_bytes [OF bs, of raw "txt" len]
    by (cases "WriteLock dbf") (simp_all add: writeMemo_def Let_def)
qed




subsection \<open>Cursor and close\<close>

text \<open>
  C6. For every n, \<open>GoTo n\<close> returns an EOF error and leaves the cursor at
  \<open>RowsCount\<close> if and only if \<open>n > RowsCount\<close>; otherwise (\<open>n \<le> RowsCount\<close>, the
  case \<open>n = RowsCount\<close> included) it sets the cursor to n and returns no error. The
  rest of the handle is unchanged in both cases.
\<close>

theorem GoTo_eof_iff:
  "(RowsCount (header dbf) < n \<longrightarrow>
      fst (GoTo n dbf) = Some (newError ''dbase-io-goto-1'' ErrEOF) \<and>
      rowPointer (snd (GoTo n dbf)) = RowsCount (header dbf)) \<and>
   (n \<le> RowsCount (header dbf) \<longrightarrow>
      fst (GoTo n dbf) = None \<and> rowPointer (snd (GoTo n dbf)) = n) \<and>
   (fst (GoTo n dbf) \<noteq> None \<longleftrightarrow> RowsCount (header dbf) < n) \<and>
   snd (GoTo n dbf) = dbf\<lparr>rowPointer := rowPointer (snd (GoTo n dbf))\<rparr>"
  by (auto simp: GoTo_def)

theorem GoTo_eof_iff_witness:
  "RowsCount (header small_dbf) < 7 \<and> (3 :: 32 word) \<le> RowsCount (header small_dbf) \<and>
   fst (GoTo 7 small_dbf) = Some (newError ''dbase-io-goto-1'' ErrEOF) \<and>
   rowPointer (snd (GoTo 7 small_dbf)) = 3 \<and>
   fst (GoTo 3 small_dbf) = None \<and> rowPointer (snd (GoTo 3 small_dbf)) = 3"
  using GoTo_eof_iff [of small_dbf 7] GoTo_eof_iff [of small_dbf 3]
  by (simp add: small_dbf_def header3_def)

lemma Skip_last_assignment:
  "Skip off dbf = dbf\<lparr>rowPointer := ucast ((ucast (rowPointer dbf) :: 64 word) + off)\<rparr>"
  by (simp add: Skip_def Let_def)

text \<open>
  C1. The comment above \<open>Skip\<close> promises a clamp of the cursor to
  \<open>[0, RowsCount]\<close>. The code assigns the clamped value and then overwrites it with
  \<open>uint32(newval)\<close>: on a table of 3 rows with the cursor at 0, \<open>Skip(10)\<close> leaves
  the cursor at 10 (the clamp gives 3), and \<open>Skip(-1)\<close> leaves it at
  \<open>0xFFFFFFFF\<close> (the clamp gives 0).
\<close>

theorem Skip_not_clamped:
  "rowPointer small_dbf = 0 \<and> RowsCount (header small_dbf) = 3 \<and>
   rowPointer (Skip 10 small_dbf) = 10 \<and> clamp_cursor 3 (0 + 10) = 3 \<and>
   rowPointer (Skip (- 1) small_dbf) = 0xFFFFFFFF \<and> clamp_cursor 3 (0 + (- 1)) = 0"
  by (simp add: Skip_last_assignment small_dbf_def header3_def clamp_cursor_def
      unsigned_minus_1_eq_mask mask_eq_exp_minus_1)

text \<open>
  C4. \<open>Close\<close> returns as soon as closing the table file fails: with both handles
  open and a failing close of the table file, the error of the first close is
  returned and \<open>Close\<close> is never called on the memo file, which stays open.
\<close>

theorem Close_skips_memo_after_table_error:
  "fst (Close dbase_close_fails small_dbf) = Some (newError ''dbase-io-close-1'' ErrOS) \<and>
   map_option close_calls (dbaseFile (snd (Close dbase_close_fails small_dbf))) = Some 1 \<and>
   map_option close_calls (memoFile (snd (Close dbase_close_fails small_dbf))) = Some 0 \<and>
   map_option closed (memoFile (snd (Close dbase_close_fails small_dbf))) = Some False"
  by (simp add: Close_def fclose_def dbase_close_fails_def no_faults_def small_dbf_def
      empty_file_def Let_def)

subsection \<open>Memo file\<close>

lemma writeMemoHeader_body_inv:
  assumes "writeMemoHeader_body e dbf = (None, dbf1)" "memoFile dbf = Some f"
  shows "\<not> closed f \<and> \<not> seek_fails e MemoFile 0 \<and> \<not> write_fails e MemoFile 0"
  using assms
  by (auto simp: writeMemoHeader_body_def fseek_def fwrite_def Let_def memo_header_bytes_def be32_def
      split: if_splits)

lemma writeMemoHeader_inv:
  assumes "writeMemoHeader e dbf = Some (None, dbf1)" "memoFile dbf = Some f"
  shows "\<not> closed f \<and> \<not> seek_fails e MemoFile 0 \<and> \<not> write_fails e MemoFile 0 \<and>
         (WriteLock dbf \<longrightarrow> setlk_retry (setlk e MemoFile 0) 0 = Some None \<and> \<not> ulock_fails e DBaseFile)"
proof (cases "WriteLock dbf")
  case False
  with assms have "writeMemoHeader_body e dbf = (None, dbf1)"
    by (simp add: writeMemoHeader_def)
  with False show ?thesis using writeMemoHeader_body_inv [OF _ assms(2)] by simp
next
  case True
  with assms obtain err where lock: "setlk_retry (setlk e MemoFile 0) 0 = Some None"
    and b: "writeMemoHeader_body e dbf = (err, dbf1)"
    and u: "ulock_deferred e ''dbase-io-writememoheader-3'' err = None"
    by (auto simp: writeMemoHeader_def split: option.splits prod.splits)
  from u have "err = None" and "\<not> ulock_fails e DBaseFile"
    by (auto simp: ulock_deferred_def split: if_splits)
  with b lock True show ?thesis using writeMemoHeader_body_inv [OF _ assms(2)] by simp
qed


lemma writeMemo_body_inv:
  assumes "writeMemo_body e n block dbf1 = (Inr addr, dbf')" "memoFile dbf1 = Some g" "block \<noteq> []"
  shows "\<not> seek_fails e MemoFile (uint n * uint (BlockSize (memoHeader dbf1))) \<and>
         \<not> write_fails e MemoFile (nat (uint n * uint (BlockSize (memoHeader dbf1))))"
  using assms
  by (auto simp: writeMemo_body_def fseek_def fwrite_def split: if_splits)

lemma writeMemo_inv:
  assumes w: "writeMemo e raw t len dbf = Some (Inr addr, dbf')" and f: "memoFile dbf = Some f"
  shows "\<not> closed f \<and> 8 \<le> unat (BlockSize (memoHeader dbf)) \<and>
         \<not> seek_fails e MemoFile 0 \<and> \<not> write_fails e MemoFile 0 \<and>
         \<not> seek_fails e MemoFile (uint (NextFree (memoHeader dbf)) * uint (BlockSize (memoHeader dbf))) \<and>
         \<not> write_fails e MemoFile (nat (uint (NextFree (memoHeader dbf)) * uint (BlockSize (memoHeader dbf)))) \<and>
         (WriteLock dbf \<longrightarrow> setlk_retry (setlk e MemoFile 0) 0 = Some None \<and>
            setlk_retry (setlk e MemoFile (uint (NextFree (memoHeader dbf)))) 0 = Some None \<and>
            \<not> ulock_fails e DBaseFile)"
proof -
  let ?mh = "memoHeader dbf"
  let ?n = "NextFree ?mh"
  from w f obtain dbf1 where h: "writeMemoHeader e dbf = Some (None, dbf1)"
    by (auto simp: writeMemo_def Let_def split: option.splits prod.splits)
  note hi = writeMemoHeader_inv [OF h f]
  then have "writeMemoHeader e dbf =
    Some (None, dbf\<lparr>memoFile := Some (f\<lparr>data := write_at (data f) 0
            (memo_header_bytes (?mh\<lparr>NextFree := ?n + 1\<rparr>)), pos := 8\<rparr>),
       memoHeader := ?mh\<lparr>NextFree := ?n + 1\<rparr>\<rparr>)"
    by (intro writeMemoHeader_ok [OF f]) simp_all
  with h have d1: "dbf1 = dbf\<lparr>memoFile := Some (f\<lparr>data := write_at (data f) 0
            (memo_header_bytes (?mh\<lparr>NextFree := ?n + 1\<rparr>)), pos := 8\<rparr>),
       memoHeader := ?mh\<lparr>NextFree := ?n + 1\<rparr>\<rparr>"
    by simp
  then have bs1: "BlockSize (memoHeader dbf1) = BlockSize ?mh" and wl1: "WriteLock dbf1 = WriteLock dbf"
    and mf1: "memoFile dbf1 = Some (f\<lparr>data := write_at (data f) 0
            (memo_header_bytes (?mh\<lparr>NextFree := ?n + 1\<rparr>)), pos := 8\<rparr>)"
    by simp_all
  from w f h obtain block where b: "memo_block (unat (BlockSize ?mh)) raw t len = Inr block"
    by (auto simp: writeMemo_def Let_def bs1 split: sum.splits)
  then have bs: "8 \<le> unat (BlockSize ?mh)" and bl: "block = block_bytes (unat (BlockSize ?mh)) raw t len"
    by (auto simp: memo_block_def split: if_splits)
  from w f h b have body: "writeMemo_body e ?n block dbf1 = (Inr addr, dbf')"
    and lock2: "WriteLock dbf \<longrightarrow> setlk_retry (setlk e MemoFile (uint ?n)) 0 = Some None"
    by (auto simp: writeMemo_def Let_def bs1 wl1 split: if_splits option.splits)
  have "block \<noteq> []" using bl by (simp add: block_bytes_not_Nil)
  from writeMemo_body_inv [OF body mf1 this] hi bs lock2 show ?thesis
    by (simp add: bs1)
qed


lemma nat_uint_mult: "nat (uint a * uint b) = unat a * unat b"
proof -
  have "nat (uint a * uint b) = nat (uint a) * nat (uint b)"
    by (rule nat_mult_distrib) simp
  then show ?thesis by simp
qed



text \<open>
  C10 (as amended). Every successful \<open>writeMemo\<close> writes one block of exactly
  \<open>BlockSize\<close> bytes at file offset \<open>NextFree * BlockSize\<close> (\<open>NextFree\<close> as it was
  before the call). The block holds the sign, then \<open>uint32(length)\<close> in big-endian
  order, then the first \<open>BlockSize - 8\<close> bytes of the payload at most, padded with
  zeros. The length field holds the low 32 bits of the length argument, whatever the
  payload is: it is the argument as passed when \<open>0 \<le> length < 2^32\<close>, and when
  \<open>BlockSize - 8 < length < 2^32\<close> the recorded length exceeds the number of payload
  bytes stored in the block.
\<close>

theorem writeMemo_block_layout:
  assumes w: "writeMemo e raw t len dbf = Some (Inr addr, dbf')" and f: "memoFile dbf = Some f"
  shows "let bs = unat (BlockSize (memoHeader dbf));
             n = NextFree (memoHeader dbf);
             block = block_bytes bs raw t len
         in 8 \<le> bs \<and> addr = le32 n \<and> length block = bs \<and>
            (\<exists>f'. memoFile dbf' = Some f' \<and>
               data f' = write_at (write_at (data f) 0
                           (memo_header_bytes ((memoHeader dbf)\<lparr>NextFree := n + 1\<rparr>)))
                           (unat n * bs) block \<and>
               take bs (drop (unat n * bs) (data f')) = block \<and>
               pos f' = unat n * bs + bs) \<and>
            BE_Uint32 (drop 4 block) = Some (word_of_int len) \<and>
            (0 \<le> len \<and> len < 2 ^ 32 \<longrightarrow> uint (word_of_int len :: 32 word) = len) \<and>
            drop 8 block = take (bs - 8) raw @ replicate (bs - 8 - length raw) 0 \<and>
            length (take (bs - 8) raw) \<le> bs - 8 \<and>
            (int bs - 8 < len \<and> len < 2 ^ 32 \<longrightarrow>
               length (take (bs - 8) raw) < unat (word_of_int len :: 32 word))"
proof -
  let ?mh = "memoHeader dbf"
  let ?bs = "unat (BlockSize ?mh)"
  let ?n = "NextFree ?mh"
  let ?block = "block_bytes ?bs raw t len"
  note inv = writeMemo_inv [OF w f]
  then have bs: "8 \<le> ?bs" by simp
  have "writeMemo e raw t len dbf =
    Some (Inr (le32 ?n),
      dbf\<lparr>memoFile := Some (f\<lparr>
          data := write_at (write_at (data f) 0 (memo_header_bytes (?mh\<lparr>NextFree := ?n + 1\<rparr>)))
                    (nat (uint ?n * uint (BlockSize ?mh))) ?block,
          pos := nat (uint ?n * uint (BlockSize ?mh)) + ?bs\<rparr>),
        memoHeader := ?mh\<lparr>NextFree := ?n + 1\<rparr>\<rparr>)"
    using inv by (intro writeMemo_ok [OF f]) simp_all
  with w have addr: "addr = le32 ?n"
    and dbf': "dbf' = dbf\<lparr>memoFile := Some (f\<lparr>
          data := write_at (write_at (data f) 0 (memo_header_bytes (?mh\<lparr>NextFree := ?n + 1\<rparr>)))
                    (unat ?n * ?bs) ?block,
          pos := unat ?n * ?bs + ?bs\<rparr>),
        memoHeader := ?mh\<lparr>NextFree := ?n + 1\<rparr>\<rparr>"
    by (simp_all add: nat_uint_mult)
  have len: "length ?block = ?bs" using bs by (rule length_block_bytes)
  have slice: "take ?bs (drop (unat ?n * ?bs) (write_at (write_at (data f) 0
      (memo_header_bytes (?mh\<lparr>NextFree := ?n + 1\<rparr>))) (unat ?n * ?bs) ?block)) = ?block"
    using len by (simp add: drop_write_at)
  have field: "BE_Uint32 (drop 4 ?block) = Some (word_of_int len)"
    using BE_Uint32_be32 [of "word_of_int len" "buffer (?bs - 8) raw"] by (simp add: block_bytes_def)
  have inrange: "0 \<le> len \<and> len < 2 ^ 32 \<longrightarrow> uint (word_of_int len :: 32 word) = len"
    by (simp add: uint_word_of_int)
  have payload: "drop 8 ?block = take (?bs - 8) raw @ replicate (?bs - 8 - length raw) 0"
    by (simp add: block_bytes_def buffer_def)
  have more: "int ?bs - 8 < len \<and> len < 2 ^ 32 \<longrightarrow>
      length (take (?bs - 8) raw) < unat (word_of_int len :: 32 word)"
  proof
    assume a: "int ?bs - 8 < len \<and> len < 2 ^ 32"
    then have "0 \<le> len" using bs by linarith
    with a have "uint (word_of_int len :: 32 word) = len" by (simp add: uint_word_of_int)
    then have "unat (word_of_int len :: 32 word) = nat len" by (simp add: unat_eq_nat_uint)
    moreover have "?bs - 8 < nat len" using a bs by (elim conjE) linarith
    ultimately show "length (take (?bs - 8) raw) < unat (word_of_int len :: 32 word)" by simp
  qed
  show ?thesis
    unfolding Let_def
    using bs addr len field inrange payload more slice
    by (simp add: dbf')
qed

theorem writeMemo_block_layout_witness:
  "\<exists>addr dbf' f'. writeMemo no_faults (hello @ hello) True 10 memo_dbf = Some (Inr addr, dbf') \<and>
     addr = [2, 0, 0, 0] \<and> memoFile dbf' = Some f' \<and>
     take 16 (drop 32 (data f')) =
       [0, 0, 0, 1, 0, 0, 0, 10, 0x68, 0x65, 0x6C, 0x6C, 0x6F, 0x68, 0x65, 0x6C] \<and>
     pos f' = 48 \<and> length (data f') = 48 \<and>
     length (take (16 - 8) (hello @ hello)) = 8 \<and>
     BE_Uint32 (drop 4 (block_bytes 16 (hello @ hello) True 10)) = Some 10"
proof -
  have "\<exists>addr dbf'. writeMemo no_faults (hello @ hello) True 10 memo_dbf = Some (Inr addr, dbf')"
    using writeMemo_ok [of memo_dbf memo_file no_faults "hello @ hello" True 10]
    by (simp add: memo_dbf_def memo_file_def no_faults_def)
  then obtain addr dbf' where w: "writeMemo no_faults (hello @ hello) True 10 memo_dbf = Some (Inr addr, dbf')"
    by blast
  have f: "memoFile memo_dbf = Some memo_file" by (simp add: memo_dbf_def)
  from writeMemo_block_layout [OF w f] w show ?thesis
    by (auto simp: Let_def memo_dbf_def memo_file_def hello_def le32_def block_bytes_def be32_def
        be16_def buffer_def write_at_def memo_header_bytes_def)
qed

text \<open>The length argument is a Go \<open>int\<close> and the field has 32 bits: with a block size
  of 16 and the length argument \<open>2^32\<close>, \<open>writeMemo\<close> succeeds, stores 8 payload
  bytes and records the length 0, which is neither the argument nor more than the
  bytes stored.\<close>

lemma writeMemo_long_length:
  "writeMemo no_faults (hello @ hello) True 4294967296 memo_dbf =
     Some (Inr [2, 0, 0, 0],
       memo_dbf\<lparr>memoFile := Some (memo_file\<lparr>
           data := [0, 0, 0, 3, 0, 0, 0, 16] @ replicate 24 0 @
                   [0, 0, 0, 1, 0, 0, 0, 0, 0x68, 0x65, 0x6C, 0x6C, 0x6F, 0x68, 0x65, 0x6C],
           pos := 48\<rparr>),
         memoHeader := \<lparr>NextFree = 3, BlockSize = 16\<rparr>\<rparr>)"
  using writeMemo_ok [of memo_dbf memo_file no_faults "hello @ hello" True 4294967296]
  by (simp add: memo_dbf_def memo_file_def no_faults_def hello_def le32_def block_bytes_def be32_def
      be16_def buffer_def write_at_def memo_header_bytes_def)

theorem writeMemo_length_truncated_counterexample:
  "\<exists>addr dbf' f'. writeMemo no_faults (hello @ hello) True 4294967296 memo_dbf = Some (Inr addr, dbf') \<and>
     memoFile dbf' = Some f' \<and>
     take 16 (drop 32 (data f')) =
       [0, 0, 0, 1, 0, 0, 0, 0, 0x68, 0x65, 0x6C, 0x6C, 0x6F, 0x68, 0x65, 0x6C] \<and>
     map_option uint (BE_Uint32 (drop 4 (take 16 (drop 32 (data f'))))) = Some 0 \<and>
     map_option uint (BE_Uint32 (drop 4 (take 16 (drop 32 (data f'))))) \<noteq> Some 4294967296 \<and>
     length (take (16 - 8) (hello @ hello)) = 8 \<and>
     int (unat (BlockSize (memoHeader memo_dbf))) - 8 < 4294967296"
  by (simp add: writeMemo_long_length) (simp add: memo_dbf_def memo_file_def hello_def)

subsection \<open>Rows\<close>

lemma length_header_bytes [simp]: "length (header_bytes h) = 32"
  by (simp add: header_bytes_def le16_def)

lemma header_bytes_not_Nil: "header_bytes h \<noteq> []"
  by (simp add: header_bytes_def)

lemma stamp_date_fields [simp]:
  "RowsCount (stamp_date e h) = RowsCount h"
  "FirstRow (stamp_date e h) = FirstRow h"
  "RowLength (stamp_date e h) = RowLength h"
  by (simp_all add: stamp_date_def)

lemma writeHeader_body_ok:
  assumes "dbaseFile dbf = Some f" "\<not> closed f" "\<not> seek_fails e DBaseFile 0" "\<not> write_fails e DBaseFile 0"
  shows "writeHeader_body e dbf =
    (None, dbf\<lparr>dbaseFile := Some (f\<lparr>data := write_at (data f) 0 (header_bytes (stamp_date e (header dbf))),
                                   pos := 32\<rparr>),
               header := stamp_date e (header dbf)\<rparr>)"
  using assms
  by (simp add: writeHeader_body_def fseek_def fwrite_def Let_def header_bytes_not_Nil)

lemma writeHeader_ok:
  assumes "dbaseFile dbf = Some f" "\<not> closed f" "\<not> seek_fails e DBaseFile 0" "\<not> write_fails e DBaseFile 0"
    and "WriteLock dbf \<longrightarrow> setlk_retry (setlk e DBaseFile 0) 0 = Some None \<and> \<not> ulock_fails e DBaseFile"
  shows "writeHeader e dbf =
    Some (None, dbf\<lparr>dbaseFile := Some (f\<lparr>data := write_at (data f) 0 (header_bytes (stamp_date e (header dbf))),
                                   pos := 32\<rparr>),
               header := stamp_date e (header dbf)\<rparr>)"
  using assms(5) writeHeader_body_ok [OF assms(1-4)]
  by (cases "WriteLock dbf") (simp_all add: writeHeader_def ulock_deferred_def)

lemma writeRow_body_ok:
  assumes "dbaseFile dbf = Some g" "\<not> closed g" "0 \<le> position"
    and "\<not> seek_fails e DBaseFile position" "\<not> write_fails e DBaseFile (nat position)"
  shows "writeRow_body e position r dbf =
    (None, dbf\<lparr>dbaseFile := Some (if r = [] then g\<lparr>pos := nat position\<rparr>
       else g\<lparr>data := write_at (data g) (nat position) r, pos := nat position + length r\<rparr>)\<rparr>)"
  using assms
  by (cases "r = []") (simp_all add: writeRow_body_def fseek_def fwrite_def)

lemma row_offset_nonneg: "0 \<le> row_offset h i"
  by (simp add: row_offset_def)

text \<open>
  C3 (as amended). Let the row encode without error, let the table hold k rows, let
  \<open>row.Position \<ge> k\<close> and \<open>row.Position \<ge> 1\<close>, let no system call on the table
  file fail and, when write locks are on, let both locks be granted at some attempt
  and the unlocks succeed. Then \<open>writeRow\<close> returns without error, \<open>RowsCount\<close>
  becomes \<open>k + 1\<close> (in \<open>uint32\<close> arithmetic), and the row is written at file offset
  \<open>FirstRow + (row.Position - 1) * RowLength\<close>. This is the previous end of the
  data, \<open>FirstRow + k * RowLength\<close>, when \<open>row.Position = k + 1\<close>.
\<close>

theorem writeRow_append_position:
  assumes enc: "ToBytes dbf = Some (Inr r, dbf0)"
    and f: "dbaseFile dbf0 = Some f" "\<not> closed f"
    and k: "RowsCount (header dbf0) = k" "k \<le> rowPos" "rowPos \<noteq> 0"
    and io: "table_calls_ok e (row_offset (header dbf0) (rowPos - 1))"
    and lk: "WriteLock dbf0 \<longrightarrow> granted_at (setlk e DBaseFile 0) k1 \<and>
               granted_at (setlk e DBaseFile (row_offset (header dbf0) (rowPos - 1))) k2 \<and>
               \<not> ulock_fails e DBaseFile"
  shows "\<exists>dbf' f'. writeRow e ToBytes rowPos dbf = Some (None, dbf') \<and>
           RowsCount (header dbf') = k + 1 \<and>
           dbaseFile dbf' = Some f' \<and>
           take (length r) (drop (unat (FirstRow (header dbf0)) +
              (unat rowPos - 1) * unat (RowLength (header dbf0))) (data f')) = r \<and>
           pos f' = unat (FirstRow (header dbf0)) +
              (unat rowPos - 1) * unat (RowLength (header dbf0)) + length r \<and>
           (rowPos = k + 1 \<longrightarrow>
              unat (FirstRow (header dbf0)) + (unat rowPos - 1) * unat (RowLength (header dbf0)) =
              unat (FirstRow (header dbf0)) + unat k * unat (RowLength (header dbf0)))"
proof -
  let ?h = "header dbf0"
  let ?position = "row_offset ?h (rowPos - 1)"
  let ?h1 = "?h\<lparr>RowsCount := RowsCount ?h + 1\<rparr>"
  let ?dbf1 = "dbf0\<lparr>header := ?h1\<rparr>"
  let ?f2 = "f\<lparr>data := write_at (data f) 0 (header_bytes (stamp_date e ?h1)), pos := 32\<rparr>"
  let ?dbf2 = "?dbf1\<lparr>dbaseFile := Some ?f2, header := stamp_date e ?h1\<rparr>"
  let ?f3 = "if r = [] then ?f2\<lparr>pos := nat ?position\<rparr>
       else ?f2\<lparr>data := write_at (data ?f2) (nat ?position) r, pos := nat ?position + length r\<rparr>"
  have un: "unat (rowPos - 1) = unat rowPos - 1"
    using k(3) by (simp add: unat_minus_one)
  have position: "nat ?position = unat (FirstRow ?h) + (unat rowPos - 1) * unat (RowLength ?h)"
    by (simp add: row_offset_def nat_add_distrib nat_uint_mult un)
  have hdr: "writeHeader e ?dbf1 = Some (None, ?dbf2)"
    using writeHeader_ok [of ?dbf1 f e] f io lk
    by (auto simp: table_calls_ok_def intro: setlk_retry_granted)
  have body: "writeRow_body e ?position r ?dbf2 = (None, ?dbf2\<lparr>dbaseFile := Some ?f3\<rparr>)"
    using f(2) io by (intro writeRow_body_ok) (simp_all add: table_calls_ok_def row_offset_nonneg)
  have lock2: "WriteLock dbf0 \<Longrightarrow> setlk_retry (setlk e DBaseFile ?position) 0 = Some None"
    using lk by (auto intro: setlk_retry_granted)
  have nu: "WriteLock dbf0 \<Longrightarrow> \<not> ulock_fails e DBaseFile" using lk by simp
  have w: "writeRow e ToBytes rowPos dbf = Some (None, ?dbf2\<lparr>dbaseFile := Some ?f3\<rparr>)"
    using enc k hdr body lock2 nu
    by (cases "WriteLock dbf0") (simp_all add: writeRow_def Let_def ulock_deferred_def)
  have slice: "take (length r) (drop (nat ?position) (data ?f3)) = r"
    by (simp add: drop_write_at)
  have p: "pos ?f3 = nat ?position + length r" by simp
  have last: "rowPos = k + 1 \<longrightarrow> unat rowPos - 1 = unat k"
    using un by auto
  show ?thesis
    apply (rule exI [of _ "?dbf2\<lparr>dbaseFile := Some ?f3\<rparr>"])
    apply (rule exI [of _ ?f3])
    using w slice p last k(1) unfolding position by simp
qed

theorem writeRow_append_position_witness:
  "\<exists>dbf' f'. writeRow no_faults encode_new_row 4 table_dbf = Some (None, dbf') \<and>
     RowsCount (header dbf') = 4 \<and> dbaseFile dbf' = Some f' \<and>
     take 10 (drop 130 (data f')) = new_row \<and> pos f' = 140"
  using writeRow_append_position [where ToBytes = encode_new_row and dbf = table_dbf
      and r = new_row and ?dbf0.0 = table_dbf and f = table_file and k = 3 and rowPos = 4
      and e = no_faults and ?k1.0 = 0 and ?k2.0 = 0]
  by (simp add: encode_new_row_def table_dbf_def table_file_def header3_def new_row_def
      no_faults_def table_calls_ok_def row_offset_def)

text \<open>With \<open>row.Position = k\<close> the row is not written at the end of the data: on a
  table of three rows of ten bytes that start at offset 100, \<open>writeRow\<close> with
  \<open>row.Position = 3\<close> counts a fourth row and writes the new row at offset 120, over
  the third row; the file still ends at offset 130, where the claim puts the new
  row.\<close>

lemma writeRow_at_count:
  "writeRow no_faults encode_new_row 3 table_dbf =
     Some (None, table_dbf\<lparr>
       dbaseFile := Some (table_file\<lparr>
         data := header_bytes (header3\<lparr>Year := 24, Month := 1, Day := 31, RowsCount := 4\<rparr>) @
                 replicate 68 0 @ replicate 10 0x41 @ replicate 10 0x42 @ new_row,
         pos := 130\<rparr>),
       header := header3\<lparr>Year := 24, Month := 1, Day := 31, RowsCount := 4\<rparr>\<rparr>)"
  by (simp add: writeRow_def encode_new_row_def table_dbf_def table_file_def header3_def new_row_def
      no_faults_def row_offset_def writeHeader_def writeHeader_body_def writeRow_body_def
      fseek_def fwrite_def write_at_def stamp_date_def Let_def header_bytes_def le32_def le16_def)

theorem writeRow_position_eq_count_counterexample:
  "RowsCount (header table_dbf) = 3 \<and> row_offset (header table_dbf) 3 = 130 \<and>
   (\<exists>dbf' f'. writeRow no_faults encode_new_row 3 table_dbf = Some (None, dbf') \<and>
      RowsCount (header dbf') = 4 \<and> dbaseFile dbf' = Some f' \<and>
      take 10 (drop 120 (data f')) = new_row \<and> length (data f') = 130 \<and>
      take 10 (drop 130 (data f')) \<noteq> new_row)"
  by (simp add: writeRow_at_count)
     (simp add: table_dbf_def table_file_def header3_def row_offset_def new_row_def header_bytes_def
        le32_def le16_def)

subsection \<open>Value codec\<close>

lemma type_codes:
  "type_code CHR ''B'' = 0x42" "type_code CHR ''C'' = 0x43" "type_code CHR ''D'' = 0x44"
  "type_code CHR ''F'' = 0x46" "type_code CHR ''I'' = 0x49" "type_code CHR ''L'' = 0x4C"
  "type_code CHR ''M'' = 0x4D" "type_code CHR ''N'' = 0x4E" "type_code CHR ''T'' = 0x54"
  "type_code CHR ''V'' = 0x56" "type_code CHR ''Y'' = 0x59" "type_code CHR ''X'' = 0x58"
  by (simp_all add: type_code_def)

lemma minus_one_word: "LE_Uint64 minus_one_raw = Some (- 10000)"
  by (simp add: minus_one_raw_def)

lemma price_word: "LE_Uint64 price_raw = Some 12345000"
  by (simp add: price_raw_def)

lemma f64_unsigned_minus_one: "f64_div (f64_of_uint64 (- 10000)) 10000 = 7378697629483817 / 4"
  by code_simp

lemma f64_signed_minus_one: "f64_div (f64_of_int64 (- 10000)) 10000 = - 1"
  by code_simp

lemma f64_price: "f64_div (f64_of_uint64 12345000) 10000 = 2469 / 2"
  by code_simp

lemma dataToValue_Y:
  assumes "DataType column = type_code CHR ''Y''" "length raw = unat (Length column)"
    and "LE_Uint64 raw = Some w"
  shows "dataToValue e hp raw column dbf = (Inr (VFloat64 (f64_div (f64_of_uint64 w) 10000)), dbf)"
  using assms by (simp add: dataToValue_def Let_def type_codes)

lemma dataToValue_currency_scenario:
  "dataToValue e hp price_raw price_column dbf = (Inr (VFloat64 (2469 / 2)), dbf)"
  using dataToValue_Y [of price_column price_raw 12345000 e hp dbf]
  by (simp add: price_word f64_price) (simp add: price_column_def price_raw_def)

lemma supported_types_codes:
  "supported_types = [0x42, 0x43, 0x44, 0x46, 0x49, 0x4C, 0x4D, 0x4E, 0x54, 0x56, 0x59]"
  by (simp add: supported_types_def type_code_def)

lemma wrap_not_Failed: "wrap site err \<noteq> Failed s"
  by (cases err) simp_all

text \<open>
  C2. A \<open>Y\<close> column holds the value times 10000 as a signed 64-bit integer, and the
  encoder writes \<open>int64(f * 10000)\<close>. The decoder converts the \<open>uint64\<close> it read to
  \<open>float64\<close> without going through \<open>int64\<close>: the eight bytes of -10000, the stored
  form of the currency value -1, are decoded as 18446744073709541616 / 10000 in
  \<open>float64\<close> arithmetic, which is 1844674407370954.25, where the signed reading
  gives -1.
\<close>

theorem dataToValue_Y_reads_unsigned:
  "LE_Uint64 minus_one_raw = Some (- 10000) \<and>
   sint (- 10000 :: 64 word) = - 10000 \<and>
   f64_div (f64_of_int64 (- 10000)) 10000 = - 1 \<and>
   dataToValue e hp minus_one_raw price_column dbf = (Inr (VFloat64 (7378697629483817 / 4)), dbf)"
proof -
  have "sint (- 10000 :: 64 word) = - 10000" by simp
  moreover have "dataToValue e hp minus_one_raw price_column dbf =
      (Inr (VFloat64 (f64_div (f64_of_uint64 (- 10000)) 10000)), dbf)"
    by (rule dataToValue_Y) (simp_all add: price_column_def minus_one_raw_def minus_one_word [unfolded minus_one_raw_def])
  ultimately show ?thesis
    by (simp add: minus_one_word f64_signed_minus_one f64_unsigned_minus_one)
qed

text \<open>
  C7 (as amended). For every column and raw slice, \<open>dataToValue\<close> returns the
  invalid-length error whenever the length of the slice differs from
  \<open>column.Length\<close>, whatever the type of the column; and it returns the
  unsupported-type error whenever the length of the slice equals \<open>column.Length\<close>
  and the type code is outside \<open>B, C, D, F, I, L, M, N, T, V, Y\<close>. The handle is
  unchanged in both cases.
\<close>

theorem dataToValue_errors:
  "(length raw \<noteq> unat (Length column) \<longrightarrow>
      dataToValue e hp raw column dbf = (Inl (Failed ''dbase-interpreter-datatovalue-1''), dbf)) \<and>
   (length raw = unat (Length column) \<and> DataType column \<notin> set supported_types \<longrightarrow>
      dataToValue e hp raw column dbf = (Inl (Failed ''dbase-interpreter-datatovalue-9''), dbf))"
  by (simp add: dataToValue_def Let_def supported_types_codes type_codes)

theorem dataToValue_errors_witness:
  "length bob \<noteq> unat (Length name_column) \<and>
   dataToValue no_faults plain_helpers bob name_column small_dbf =
     (Inl (Failed ''dbase-interpreter-datatovalue-1''), small_dbf) \<and>
   length (bob @ [0x20]) = unat (Length unknown_column) \<and>
   DataType unknown_column \<notin> set supported_types \<and>
   dataToValue no_faults plain_helpers (bob @ [0x20]) unknown_column small_dbf =
     (Inl (Failed ''dbase-interpreter-datatovalue-9''), small_dbf)"
  using dataToValue_errors [of bob name_column no_faults plain_helpers small_dbf]
    dataToValue_errors [of "bob @ [0x20]" unknown_column no_faults plain_helpers small_dbf]
  by (simp add: bob_def name_column_def unknown_column_def supported_types_codes type_codes)

text \<open>The length is checked before the type: for a column of the unknown type
  \<open>X\<close> and a slice of the wrong length the error is the invalid-length error, not
  the unsupported-type error.\<close>

theorem dataToValue_unsupported_counterexample:
  "DataType unknown_column \<notin> set supported_types \<and>
   length bob \<noteq> unat (Length unknown_column) \<and>
   dataToValue no_faults plain_helpers bob unknown_column small_dbf =
     (Inl (Failed ''dbase-interpreter-datatovalue-1''), small_dbf) \<and>
   dataToValue no_faults plain_helpers bob unknown_column small_dbf \<noteq>
     (Inl (Failed ''dbase-interpreter-datatovalue-9''), small_dbf)"
  by (simp add: dataToValue_def Let_def bob_def unknown_column_def supported_types_codes type_codes)

text \<open>
  C9. For every string value and every \<open>C\<close> column, when the converter succeeds
  \<open>getCRepresentation\<close> returns exactly \<open>column.Length\<close> bytes: the encoded text,
  padded on the right with spaces to \<open>Length\<close>, and cut to \<open>Length\<close> when it is
  longer. No input reaches the over-length error (site 3).
\<close>

theorem getCRepresentation_padded:
  "(fromUtf8String hp c = Inr bin \<longrightarrow>
      getCRepresentation hp (VString c) column =
        Inr (take (unat (Length column)) (bin @ replicate (unat (Length column) - length bin) 0x20)) \<and>
      length (take (unat (Length column)) (bin @ replicate (unat (Length column) - length bin) 0x20)) =
        unat (Length column)) \<and>
   getCRepresentation hp v column \<noteq> Inl (Failed ''dbase-interpreter-getcrepresentation-3'')"
proof -
  let ?n = "unat (Length column)"
  have len: "length (copy_bytes (replicate ?n 0) src) = ?n" for src
    by (simp add: copy_bytes_def)
  have pad: "copy_bytes (replicate ?n 0) (appendSpaces b ?n) = take ?n (b @ replicate (?n - length b) 0x20)" for b
    by (simp add: copy_bytes_def appendSpaces_def)
  have a: "fromUtf8String hp c = Inr bin \<longrightarrow>
      getCRepresentation hp (VString c) column = Inr (take ?n (bin @ replicate (?n - length bin) 0x20))"
    using len [of "appendSpaces bin ?n"] by (simp add: getCRepresentation_def Let_def pad)
  have b: "length (take ?n (bin @ replicate (?n - length bin) 0x20)) = ?n"
    by simp
  have c: "getCRepresentation hp v column \<noteq> Inl (Failed ''dbase-interpreter-getcrepresentation-3'')"
    using len by (cases v) (auto simp: getCRepresentation_def Let_def wrap_not_Failed split: sum.splits)
  from a b c show ?thesis by simp
qed

theorem getCRepresentation_padded_witness:
  "fromUtf8String plain_helpers bob = Inr bob \<and>
   getCRepresentation plain_helpers (VString bob) name_column =
     Inr (bob @ replicate 7 0x20) \<and>
   getCRepresentation plain_helpers (VString (bob @ bob @ bob @ bob)) name_column =
     Inr [0x42, 0x4F, 0x42, 0x42, 0x4F, 0x42, 0x42, 0x4F, 0x42, 0x42]"
  using getCRepresentation_padded [of plain_helpers bob bob name_column]
    getCRepresentation_padded [of plain_helpers "bob @ bob @ bob @ bob" "bob @ bob @ bob @ bob" name_column]
  by (simp add: plain_helpers_def bob_def name_column_def)

subsection \<open>Search\<close>






lemma repos_repos [simp]:
  "map_option (\<lambda>f. f\<lparr>pos := q\<rparr>) (map_option (\<lambda>f. f\<lparr>pos := p\<rparr>) fo) = map_option (\<lambda>f. f\<lparr>pos := q\<rparr>) fo"
  by (cases fo) simp_all


lemma reposition_fields [simp]:
  "header (reposition p rp dbf) = header dbf"
  "dbaseFile (reposition p rp dbf) = map_option (\<lambda>f. f\<lparr>pos := p\<rparr>) (dbaseFile dbf)"
  "rowPointer (reposition p rp dbf) = rp"
  by (simp_all add: reposition_def)

lemma reposition_file [simp]:
  "(reposition p rp dbf)\<lparr>dbaseFile := map_option (\<lambda>f. f\<lparr>pos := q\<rparr>) (dbaseFile dbf)\<rparr> = reposition q rp dbf"
  by (simp add: reposition_def)

lemma reposition_pointer [simp]:
  "(reposition p rp dbf)\<lparr>rowPointer := rp'\<rparr> = reposition p rp' dbf"
  by (simp add: reposition_def)

lemma reposition_reposition [simp]:
  "reposition q rq (reposition p rp dbf) = reposition q rq dbf"
  by (simp add: reposition_def)






lemma GoTo_snd: "GoTo n dbf = (None, dbf2) \<Longrightarrow> dbf2 = dbf\<lparr>rowPointer := n\<rparr>"
  by (auto simp: GoTo_def split: if_splits)







lemma scan_field_bytes:
  assumes "dbaseFile dbf = Some f" "\<not> closed f"
    and "\<not> seek_fails e DBaseFile (row_offset (header dbf) (of_nat i) + uint (Position c))"
    and "\<not> read_fails e DBaseFile (nat (row_offset (header dbf) (of_nat i) + uint (Position c)))"
    and "nat (row_offset (header dbf) (of_nat i) + uint (Position c)) + unat (Length c) \<le> length (data f)"
  shows "scan_field e c dbf i =
    Some (take (unat (Length c)) (drop (nat (row_offset (header dbf) (of_nat i) + uint (Position c))) (data f)))"
proof -
  have "0 \<le> row_offset (header dbf) (of_nat i) + uint (Position c)"
    using row_offset_nonneg [of "header dbf" "of_nat i"] by simp
  then show ?thesis
    using assms by (auto simp: scan_field_def fseek_def fread_def Let_def not_less)
qed









end
